theory Spec2Isabelle
  imports Main
begin

section \<open>Text, errors and JSON values\<close>

text \<open>
  A Python \<open>str\<close> is a sequence of Unicode code points; file contents and decoded JSON
  strings are modelled as lists of code points (\<open>nat\<close>). File-system paths are
  ordinary \<open>string\<close>s. \<open>ustr\<close> turns a literal into code points.
\<close>

type_synonym ustring = "nat list"

definition ustr :: "string \<Rightarrow> ustring" where
  "ustr s = map of_char s"

abbreviation ch :: "char \<Rightarrow> nat" where
  "ch \<equiv> of_char"

text \<open>The exceptions that the script can meet, as values.\<close>

datatype error =
    FileNotFoundError
  | FileExistsError
  | NotADirectoryError
  | IsADirectoryError
  | PermissionError
  | UnicodeDecodeError
  | JSONDecodeError
  | ValueError
  | TypeError
  | AttributeError
  | UnboundLocalError
  | BadZipFile
  | ReadError

text \<open>
  The values \<open>json.loads\<close> builds. An integer literal becomes a Python \<open>int\<close>; a
  literal with a fraction or an exponent becomes a \<open>float\<close>, kept here as its literal
  text (the constants \<open>NaN\<close>, \<open>Infinity\<close> and \<open>-Infinity\<close> likewise). An object keeps
  its pairs in the order read, repeated keys included; \<open>dict_get\<close> reads the last
  pair of a key, as the dictionary built from the pairs does.
\<close>

datatype json =
    JNull
  | JBool bool
  | JInt int
  | JFloat ustring
  | JString ustring
  | JArray "json list"
  | JObject "(ustring \<times> json) list"

definition dict_get :: "(ustring \<times> json) list \<Rightarrow> ustring \<Rightarrow> json \<Rightarrow> json" where
  "dict_get d k dflt = (case map_of (rev d) k of Some v \<Rightarrow> v | None \<Rightarrow> dflt)"

text \<open>
  \<open>v.get(k, dflt)\<close> on an arbitrary decoded value: only a dictionary has the method,
  every other value raises \<open>AttributeError\<close>.
\<close>

fun py_get :: "json \<Rightarrow> ustring \<Rightarrow> json \<Rightarrow> error + json" where
  "py_get (JObject d) k dflt = Inr (dict_get d k dflt)"
| "py_get _ k dflt = Inl AttributeError"

section \<open>Projection of a site record\<close>

record site_record =
  site_id :: json
  site_name :: json
  site_version :: json
  site_oid :: json

text \<open>
  The body of the \<open>try\<close> block of \<open>extract_site_data\<close>: the four nested lookups in the
  order of the source, the first exception ending the block.
\<close>

definition site_fields :: "(ustring \<times> json) list \<Rightarrow> error + site_record" where
  "site_fields data =
     (case py_get (dict_get data (ustr ''common'') (JObject [])) (ustr ''siteid'')
             (JString (ustr ''Unknown Site ID'')) of
        Inl e \<Rightarrow> Inl e
      | Inr sid \<Rightarrow>
     (case py_get (dict_get data (ustr ''common'') (JObject [])) (ustr ''name'')
             (JString (ustr ''Unknown Name'')) of
        Inl e \<Rightarrow> Inl e
      | Inr nm \<Rightarrow>
     (case py_get (dict_get data (ustr ''common'') (JObject [])) (ustr ''siteversion'')
             (JString (ustr ''Unknown Version'')) of
        Inl e \<Rightarrow> Inl e
      | Inr ver \<Rightarrow>
     (case py_get (dict_get data (ustr ''_id'') (JObject [])) (ustr ''$oid'')
             (JString (ustr ''Unknown Site OID'')) of
        Inl e \<Rightarrow> Inl e
      | Inr oid \<Rightarrow>
          Inr \<lparr>site_id = sid, site_name = nm, site_version = ver, site_oid = oid\<rparr>))))"

text \<open>
  \<open>extract_site_data\<close>: a value that is not a dictionary gives no record; an exception
  inside the \<open>try\<close> block is caught and the (still empty) result list is returned.
\<close>

fun extract_site_data :: "json \<Rightarrow> site_record list" where
  "extract_site_data (JObject data) =
     (case site_fields data of Inl e \<Rightarrow> [] | Inr r \<Rightarrow> [r])"
| "extract_site_data _ = []"

text \<open>A nested field \<open>outer.inner\<close> of a dictionary, when both levels are present.\<close>

definition nested_field :: "(ustring \<times> json) list \<Rightarrow> ustring \<Rightarrow> ustring \<Rightarrow> json option" where
  "nested_field data outer inner =
     (case map_of (rev data) outer of
        Some (JObject d) \<Rightarrow> map_of (rev d) inner
      | _ \<Rightarrow> None)"

definition is_dict :: "json \<Rightarrow> bool" where
  "is_dict v = (case v of JObject d \<Rightarrow> True | _ \<Rightarrow> False)"

text \<open>The entry under \<open>k\<close>, when there is one, is itself a dictionary.\<close>

definition dict_or_absent :: "(ustring \<times> json) list \<Rightarrow> ustring \<Rightarrow> bool" where
  "dict_or_absent data k =
     (case map_of (rev data) k of None \<Rightarrow> True | Some v \<Rightarrow> is_dict v)"

definition field_or :: "json option \<Rightarrow> string \<Rightarrow> json" where
  "field_or f placeholder = (case f of Some v \<Rightarrow> v | None \<Rightarrow> JString (ustr placeholder))"

section \<open>The JSON decoder of the standard library\<close>

text \<open>
  The decoder reads the text one code point at a time. Its state is what it expects next
  (\<open>mode\<close>) and the stack of the arrays and objects that are still open
  (\<open>frame\<close>); \<open>Err\<close> stands for \<open>JSONDecodeError\<close> and is never left.
  The whitespace of the decoder is space, tab, line feed and carriage return.
\<close>

definition json_ws :: "nat \<Rightarrow> bool" where
  "json_ws c = (c = 32 \<or> c = 9 \<or> c = 10 \<or> c = 13)"

datatype frame = FArr "json list" | FObj "(ustring \<times> json) list" "ustring option"
datatype smode = SNorm | SEsc | SHex nat nat
datatype numstage = NMinus | NZero | NInt | NDot | NFrac | NE | NESign | NExp
datatype mode =
    MValue | MArrFirst | MObjFirst | MKey | MColon | MAfter | MDone json
  | MStr bool ustring "nat option" smode
  | MNum numstage ustring
  | MLit ustring json
datatype pstate = Err | St mode "frame list"

text \<open>A finished value goes to the innermost open container, or ends the document.\<close>

fun deliver :: "json \<Rightarrow> frame list \<Rightarrow> pstate" where
  "deliver v [] = St (MDone v) []"
| "deliver v (FArr es # st) = St MAfter (FArr (es @ [v]) # st)"
| "deliver v (FObj kvs (Some k) # st) = St MAfter (FObj (kvs @ [(k, v)]) None # st)"
| "deliver v (FObj kvs None # st) = Err"

text \<open>
  String literals: the escapes of \<open>scanstring\<close> in strict mode (control characters
  are rejected). A \<open>\u\<close> escape in the high-surrogate range waits (\<open>pend\<close>) for a
  directly following \<open>\u\<close> escape in the low-surrogate range, and the two are joined
  into one code point.
\<close>

definition is_digit :: "nat \<Rightarrow> bool" where
  "is_digit c = (48 \<le> c \<and> c \<le> 57)"

definition hex_digit :: "nat \<Rightarrow> nat option" where
  "hex_digit c =
     (if 48 \<le> c \<and> c \<le> 57 then Some (c - 48)
      else if 97 \<le> c \<and> c \<le> 102 then Some (c - 87)
      else if 65 \<le> c \<and> c \<le> 70 then Some (c - 55)
      else None)"

definition escape_char :: "nat \<Rightarrow> nat option" where
  "escape_char c =
     (if c = ch CHR ''\"'' then Some c
      else if c = 92 then Some 92
      else if c = ch CHR ''/'' then Some c
      else if c = ch CHR ''b'' then Some 8
      else if c = ch CHR ''f'' then Some 12
      else if c = ch CHR ''n'' then Some 10
      else if c = ch CHR ''r'' then Some 13
      else if c = ch CHR ''t'' then Some 9
      else None)"

definition is_high :: "nat \<Rightarrow> bool" where "is_high u = (0xD800 \<le> u \<and> u \<le> 0xDBFF)"
definition is_low :: "nat \<Rightarrow> bool" where "is_low u = (0xDC00 \<le> u \<and> u \<le> 0xDFFF)"
definition join_surrogates :: "nat \<Rightarrow> nat \<Rightarrow> nat" where
  "join_surrogates h l = 0x10000 + (h - 0xD800) * 1024 + (l - 0xDC00)"

definition pend_list :: "nat option \<Rightarrow> ustring" where
  "pend_list p = (case p of None \<Rightarrow> [] | Some h \<Rightarrow> [h])"

definition end_string :: "bool \<Rightarrow> ustring \<Rightarrow> frame list \<Rightarrow> pstate" where
  "end_string iskey s st =
     (if iskey then
        (case st of FObj kvs None # rest \<Rightarrow> St MColon (FObj kvs (Some s) # rest) | _ \<Rightarrow> Err)
      else deliver (JString s) st)"

fun str_step :: "bool \<Rightarrow> ustring \<Rightarrow> nat option \<Rightarrow> smode \<Rightarrow> nat \<Rightarrow> frame list \<Rightarrow> pstate" where
  "str_step iskey acc p SNorm c st =
     (if c = ch CHR ''\"'' then end_string iskey (acc @ pend_list p) st
      else if c = 92 then St (MStr iskey acc p SEsc) st
      else if c < 32 then Err
      else St (MStr iskey (acc @ pend_list p @ [c]) None SNorm) st)"
| "str_step iskey acc p SEsc c st =
     (if c = ch CHR ''u'' then St (MStr iskey acc p (SHex 0 0)) st
      else (case escape_char c of
              Some d \<Rightarrow> St (MStr iskey (acc @ pend_list p @ [d]) None SNorm) st
            | None \<Rightarrow> Err))"
| "str_step iskey acc p (SHex n v) c st =
     (case hex_digit c of
        None \<Rightarrow> Err
      | Some d \<Rightarrow>
          if n < 3 then St (MStr iskey acc p (SHex (Suc n) (16 * v + d))) st
          else
            (let u = 16 * v + d in
             case p of
               Some h \<Rightarrow>
                 if is_low u then St (MStr iskey (acc @ [join_surrogates h u]) None SNorm) st
                 else if is_high u then St (MStr iskey (acc @ [h]) (Some u) SNorm) st
                 else St (MStr iskey (acc @ [h, u]) None SNorm) st
             | None \<Rightarrow>
                 if is_high u then St (MStr iskey acc (Some u) SNorm) st
                 else St (MStr iskey (acc @ [u]) None SNorm) st))"

text \<open>The first code point of a value decides its kind, as in \<open>scan_once\<close>.\<close>

definition start_value :: "nat \<Rightarrow> frame list \<Rightarrow> pstate" where
  "start_value c st =
     (if c = ch CHR ''\"'' then St (MStr False [] None SNorm) st
      else if c = ch CHR ''{'' then St MObjFirst (FObj [] None # st)
      else if c = ch CHR ''['' then St MArrFirst (FArr [] # st)
      else if c = ch CHR ''n'' then St (MLit (ustr ''ull'') JNull) st
      else if c = ch CHR ''t'' then St (MLit (ustr ''rue'') (JBool True)) st
      else if c = ch CHR ''f'' then St (MLit (ustr ''alse'') (JBool False)) st
      else if c = ch CHR ''N'' then St (MLit (ustr ''aN'') (JFloat (ustr ''NaN''))) st
      else if c = ch CHR ''I'' then St (MLit (ustr ''nfinity'') (JFloat (ustr ''Infinity''))) st
      else if c = ch CHR ''-'' then St (MNum NMinus [c]) st
      else if c = ch CHR ''0'' then St (MNum NZero [c]) st
      else if is_digit c then St (MNum NInt [c]) st
      else Err)"

definition close_array :: "frame list \<Rightarrow> pstate" where
  "close_array st = (case st of FArr es # rest \<Rightarrow> deliver (JArray es) rest | _ \<Rightarrow> Err)"

definition close_object :: "frame list \<Rightarrow> pstate" where
  "close_object st = (case st of FObj kvs None # rest \<Rightarrow> deliver (JObject kvs) rest | _ \<Rightarrow> Err)"

definition after_comma :: "frame list \<Rightarrow> pstate" where
  "after_comma st =
     (case st of FArr es # rest \<Rightarrow> St MValue st
               | FObj kvs None # rest \<Rightarrow> St MKey st
               | _ \<Rightarrow> Err)"

text \<open>
  Numbers follow the decoder's pattern
  \<open>-?(0|[1-9][0-9]*)(\.[0-9]+)?([eE][-+]?[0-9]+)?\<close>. No code point that could extend
  a number may follow one, so a number that cannot be completed is an error.
\<close>

definition is_exp :: "nat \<Rightarrow> bool" where "is_exp c = (c = ch CHR ''e'' \<or> c = ch CHR ''E'')"

fun num_step :: "numstage \<Rightarrow> nat \<Rightarrow> numstage option" where
  "num_step NMinus c = (if c = ch CHR ''0'' then Some NZero else if is_digit c then Some NInt else None)"
| "num_step NZero c = (if c = ch CHR ''.'' then Some NDot else if is_exp c then Some NE else None)"
| "num_step NInt c = (if is_digit c then Some NInt else if c = ch CHR ''.'' then Some NDot
                       else if is_exp c then Some NE else None)"
| "num_step NDot c = (if is_digit c then Some NFrac else None)"
| "num_step NFrac c = (if is_digit c then Some NFrac else if is_exp c then Some NE else None)"
| "num_step NE c = (if c = ch CHR ''+'' \<or> c = ch CHR ''-'' then Some NESign
                     else if is_digit c then Some NExp else None)"
| "num_step NESign c = (if is_digit c then Some NExp else None)"
| "num_step NExp c = (if is_digit c then Some NExp else None)"

definition num_complete :: "numstage \<Rightarrow> bool" where
  "num_complete s = (s = NZero \<or> s = NInt \<or> s = NFrac \<or> s = NExp)"

definition digits_value :: "ustring \<Rightarrow> int" where
  "digits_value ds = foldl (\<lambda>a c. 10 * a + int (c - 48)) 0 ds"

definition number_value :: "numstage \<Rightarrow> ustring \<Rightarrow> json" where
  "number_value s lx =
     (if s = NZero \<or> s = NInt then
        (case lx of
           [] \<Rightarrow> JInt 0
         | c # cs \<Rightarrow> if c = ch CHR ''-'' then JInt (- digits_value cs) else JInt (digits_value lx))
      else JFloat lx)"

text \<open>One code point, in every mode but the one inside a number.\<close>

fun step0 :: "mode \<Rightarrow> frame list \<Rightarrow> nat \<Rightarrow> pstate" where
  "step0 MValue st c = (if json_ws c then St MValue st else start_value c st)"
| "step0 MArrFirst st c =
     (if json_ws c then St MArrFirst st
      else if c = ch CHR '']'' then close_array st
      else start_value c st)"
| "step0 MObjFirst st c =
     (if json_ws c then St MObjFirst st
      else if c = ch CHR ''}'' then close_object st
      else if c = ch CHR ''\"'' then St (MStr True [] None SNorm) st
      else Err)"
| "step0 MKey st c =
     (if json_ws c then St MKey st
      else if c = ch CHR ''\"'' then St (MStr True [] None SNorm) st
      else Err)"
| "step0 MColon st c =
     (if json_ws c then St MColon st
      else if c = ch CHR '':'' then St MValue st
      else Err)"
| "step0 MAfter st c =
     (if json_ws c then St MAfter st
      else if c = ch CHR '','' then after_comma st
      else if c = ch CHR '']'' then close_array st
      else if c = ch CHR ''}'' then close_object st
      else Err)"
| "step0 (MDone v) st c = (if json_ws c then St (MDone v) st else Err)"
| "step0 (MStr iskey acc p sm) st c = str_step iskey acc p sm c st"
| "step0 (MLit [] v) st c = Err"
| "step0 (MLit (r # rs) v) st c =
     (if c = r then (if rs = [] then deliver v st else St (MLit rs v) st) else Err)"
| "step0 (MNum s lx) st c = Err"

text \<open>
  Inside a number a code point either extends the literal or ends it; in the second case
  the number is delivered and the code point is read again in the mode that follows.
\<close>

fun step :: "pstate \<Rightarrow> nat \<Rightarrow> pstate" where
  "step Err c = Err"
| "step (St (MNum s lx) st) c =
     (case num_step s c of
        Some s' \<Rightarrow> St (MNum s' (lx @ [c])) st
      | None \<Rightarrow>
          if s = NMinus \<and> c = ch CHR ''I''
          then St (MLit (ustr ''nfinity'') (JFloat (ustr ''-Infinity''))) st
          else if num_complete s then
            (case deliver (number_value s lx) st of
               Err \<Rightarrow> Err
             | St m' st' \<Rightarrow> step0 m' st' c)
          else Err)"
| "step (St m st) c = step0 m st c"

text \<open>At the end of the text the document must be complete.\<close>

fun finish :: "pstate \<Rightarrow> json option" where
  "finish (St (MDone v) []) = Some v"
| "finish (St (MNum s lx) []) = (if num_complete s then Some (number_value s lx) else None)"
| "finish _ = None"

definition loads :: "ustring \<Rightarrow> json option" where
  "loads s = finish (foldl step (St MValue []) s)"

text \<open>
  \<open>json.loads\<close> on a \<open>str\<close>: the decoded value, or \<open>JSONDecodeError\<close>. The limits
  of the interpreter (recursion depth, length of integer literals) are not modelled.
\<close>

definition json_loads :: "ustring \<Rightarrow> error + json" where
  "json_loads s = (case loads s of None \<Rightarrow> Inl JSONDecodeError | Some v \<Rightarrow> Inr v)"

section \<open>Boundary detection\<close>

text \<open>
  \<open>re.findall(r'{.*?}(?=\s*{|\s*$)', content, re.DOTALL)\<close>. \<open>re_space\<close> is the class
  \<open>\s\<close> of a \<open>str\<close> pattern. The lookahead holds when the rest of the text, after
  its leading whitespace, starts with an opening brace or is empty (\<open>$\<close> after
  \<open>\s*\<close> holds exactly when nothing but whitespace is left). \<open>lazy_match\<close> is the
  part \<open>.*?}\<close> after an opening brace: the shortest extension that ends in a closing
  brace where the lookahead holds. \<open>findall\<close> tries each position from left to right
  and continues after a match.
\<close>

definition re_space :: "nat \<Rightarrow> bool" where
  "re_space c =
     ((9 \<le> c \<and> c \<le> 13) \<or> (28 \<le> c \<and> c \<le> 32) \<or> c = 133 \<or> c = 160 \<or> c = 5760
      \<or> (8192 \<le> c \<and> c \<le> 8202) \<or> c = 8232 \<or> c = 8233 \<or> c = 8239 \<or> c = 8287
      \<or> c = 12288)"

definition lookahead :: "ustring \<Rightarrow> bool" where
  "lookahead rest = (case dropWhile re_space rest of [] \<Rightarrow> True | c # cs \<Rightarrow> c = ch CHR ''{'')"

fun lazy_match :: "ustring \<Rightarrow> ustring option" where
  "lazy_match [] = None"
| "lazy_match (c # cs) =
     (if c = ch CHR ''}'' \<and> lookahead cs then Some [c]
      else map_option (Cons c) (lazy_match cs))"

fun findall :: "ustring \<Rightarrow> ustring list" where
  "findall [] = []"
| "findall (c # cs) =
     (if c = ch CHR ''{'' then
        (case lazy_match cs of
           Some m \<Rightarrow> (c # m) # findall (drop (length m) cs)
         | None \<Rightarrow> findall cs)
      else findall cs)"

section \<open>Object-Stream Recoverer\<close>

text \<open>Reading a file as text either raises or gives its content.\<close>

type_synonym reader = "string \<Rightarrow> error + ustring"




section \<open>Version and audit reports\<close>

text \<open>
  A \<open>datetime\<close> is offset-naive or offset-aware; each carries its position on the time
  line in microseconds (for an aware one, after conversion to UTC). Two values of the
  same kind compare by that position; comparing a naive with an aware one raises
  \<open>TypeError\<close>. \<open>datetime.fromisoformat\<close> is a parameter of the model: a function from
  a string to a \<open>datetime\<close>, or \<open>None\<close> where it raises \<open>ValueError\<close>.
\<close>

datatype datetime = Naive int | Aware int

type_synonym isoparser = "ustring \<Rightarrow> datetime option"

definition is_aware :: "datetime \<Rightarrow> bool" where
  "is_aware d = (case d of Aware t \<Rightarrow> True | Naive t \<Rightarrow> False)"

definition instant :: "datetime \<Rightarrow> int" where
  "instant d = (case d of Aware t \<Rightarrow> t | Naive t \<Rightarrow> t)"

text \<open>
  The sort key \<open>datetime.fromisoformat(x)\<close> of a decoded value: \<open>TypeError\<close> when the
  value is not a string, \<open>ValueError\<close> when the string is not an ISO date-time.
\<close>

definition ts_key :: "isoparser \<Rightarrow> json \<Rightarrow> error + datetime" where
  "ts_key fromisoformat v =
     (case v of
        JString s \<Rightarrow> (case fromisoformat s of None \<Rightarrow> Inl ValueError | Some d \<Rightarrow> Inr d)
      | _ \<Rightarrow> Inl TypeError)"

text \<open>
  \<open>list.sort(key=..., reverse=True)\<close>. The keys of all elements are computed first, from
  left to right, and the first exception is raised. Sorting keys of both kinds raises
  \<open>TypeError\<close>. Otherwise the list is reversed, sorted stably in ascending order and
  reversed again.
\<close>

fun sort_keys :: "('a \<Rightarrow> error + datetime) \<Rightarrow> 'a list \<Rightarrow> error + (datetime \<times> 'a) list" where
  "sort_keys key [] = Inr []"
| "sort_keys key (x # xs) =
     (case key x of
        Inl e \<Rightarrow> Inl e
      | Inr k \<Rightarrow> (case sort_keys key xs of Inl e \<Rightarrow> Inl e | Inr ks \<Rightarrow> Inr ((k, x) # ks)))"

definition mixed :: "datetime list \<Rightarrow> bool" where
  "mixed ds = (list_ex is_aware ds \<and> list_ex (\<lambda>d. \<not> is_aware d) ds)"

definition sort_reverse :: "('a \<Rightarrow> error + datetime) \<Rightarrow> 'a list \<Rightarrow> error + 'a list" where
  "sort_reverse key xs =
     (case sort_keys key xs of
        Inl e \<Rightarrow> Inl e
      | Inr ks \<Rightarrow>
          if mixed (map fst ks) then Inl TypeError
          else Inr (map snd (rev (sort_key (\<lambda>p. instant (fst p)) (rev ks)))))"

text \<open>
  The body of the inner \<open>try\<close> of \<open>get_last_audits\<close> for one detected span: the entry to
  append, or nothing when the record is of an excluded type.
\<close>

definition audit_body :: "ustring \<Rightarrow> error + (json \<times> json) option" where
  "audit_body obj =
     (case json_loads obj of
        Inl e \<Rightarrow> Inl e
      | Inr data \<Rightarrow>
     (case py_get data (ustr ''type'') JNull of
        Inl e \<Rightarrow> Inl e
      | Inr ty \<Rightarrow>
          if ty \<in> set [JString (ustr ''backup''), JString (ustr ''backup-record'')] then Inr None
          else
     (case py_get data (ustr ''timestamp'') (JString (ustr ''Unknown Timestamp'')) of
        Inl e \<Rightarrow> Inl e
      | Inr timestamp \<Rightarrow>
     (case py_get data (ustr ''description'') (JString (ustr ''No Description'')) of
        Inl e \<Rightarrow> Inl e
      | Inr description \<Rightarrow> Inr (Some (timestamp, description))))))"

text \<open>The inner \<open>try\<close> with its handler: \<open>JSONDecodeError\<close> is reported and the span skipped.\<close>

definition audit_try :: "ustring \<Rightarrow> error + (json \<times> json) option" where
  "audit_try obj =
     (case audit_body obj of
        Inl e \<Rightarrow> if e = JSONDecodeError then Inr None else Inl e
      | Inr r \<Rightarrow> Inr r)"

text \<open>
  The \<open>for\<close> loop over the detected spans. It returns the list built so far together
  with the exception that ended it, if any.
\<close>

fun audit_loop :: "(json \<times> json) list \<Rightarrow> ustring list \<Rightarrow> (json \<times> json) list \<times> error option" where
  "audit_loop audit_entries [] = (audit_entries, None)"
| "audit_loop audit_entries (obj # objs) =
     (case audit_try obj of
        Inl e \<Rightarrow> (audit_entries, Some e)
      | Inr None \<Rightarrow> audit_loop audit_entries objs
      | Inr (Some entry) \<Rightarrow> audit_loop (audit_entries @ [entry]) objs)"

text \<open>
  The first part of \<open>get_last_audits\<close>, up to the sort. \<open>audit_files\<close> is the result of
  \<open>glob.glob\<close>. The outer \<open>try\<close> catches \<open>FileNotFoundError\<close> only.
\<close>

definition audit_collect :: "reader \<Rightarrow> string list \<Rightarrow> error + (json \<times> json) list" where
  "audit_collect rd audit_files =
     (case audit_files of
        [] \<Rightarrow> Inr []
      | audit_file # others \<Rightarrow>
          (case (case rd audit_file of
                   Inl e \<Rightarrow> ([], Some e)
                 | Inr content \<Rightarrow> audit_loop [] (findall content)) of
             (audit_entries, None) \<Rightarrow> Inr audit_entries
           | (audit_entries, Some e) \<Rightarrow>
               if e = FileNotFoundError then Inr audit_entries else Inl e))"

definition get_last_audits :: "isoparser \<Rightarrow> reader \<Rightarrow> string list \<Rightarrow> error + (json \<times> json) list" where
  "get_last_audits fromisoformat rd audit_files =
     (case audit_collect rd audit_files of
        Inl e \<Rightarrow> Inl e
      | Inr audit_entries \<Rightarrow>
          (case sort_reverse (\<lambda>x. ts_key fromisoformat (fst x)) audit_entries of
             Inl e \<Rightarrow> Inl e
           | Inr sorted_entries \<Rightarrow> Inr (take 20 sorted_entries)))"

text \<open>The same for \<open>get_ndo_versions\<close>; an entry is the pair of version and timestamp.\<close>

definition version_body :: "ustring \<Rightarrow> error + (json \<times> json)" where
  "version_body obj =
     (case json_loads obj of
        Inl e \<Rightarrow> Inl e
      | Inr data \<Rightarrow>
     (case py_get data (ustr ''version'') (JString (ustr ''Unknown Version'')) of
        Inl e \<Rightarrow> Inl e
      | Inr version \<Rightarrow>
     (case py_get data (ustr ''timestamp'') (JString (ustr ''Unknown Timestamp'')) of
        Inl e \<Rightarrow> Inl e
      | Inr timestamp \<Rightarrow> Inr (version, timestamp))))"

definition version_try :: "ustring \<Rightarrow> error + (json \<times> json) option" where
  "version_try obj =
     (case version_body obj of
        Inl e \<Rightarrow> if e = JSONDecodeError then Inr None else Inl e
      | Inr entry \<Rightarrow> Inr (Some entry))"

fun version_loop :: "(json \<times> json) list \<Rightarrow> ustring list \<Rightarrow> (json \<times> json) list \<times> error option" where
  "version_loop version_info [] = (version_info, None)"
| "version_loop version_info (obj # objs) =
     (case version_try obj of
        Inl e \<Rightarrow> (version_info, Some e)
      | Inr None \<Rightarrow> version_loop version_info objs
      | Inr (Some entry) \<Rightarrow> version_loop (version_info @ [entry]) objs)"

definition version_collect :: "reader \<Rightarrow> string list \<Rightarrow> error + (json \<times> json) list" where
  "version_collect rd version_files =
     (case version_files of
        [] \<Rightarrow> Inr []
      | version_file # others \<Rightarrow>
          (case (case rd version_file of
                   Inl e \<Rightarrow> ([], Some e)
                 | Inr content \<Rightarrow> version_loop [] (findall content)) of
             (version_info, None) \<Rightarrow> Inr version_info
           | (version_info, Some e) \<Rightarrow>
               if e = FileNotFoundError then Inr version_info else Inl e))"

text \<open>
  After the sort, an empty list is reported with a message that names \<open>version_file\<close>;
  the variable is bound only when a version file was found, so the message raises
  \<open>UnboundLocalError\<close> otherwise.
\<close>

definition get_ndo_versions :: "isoparser \<Rightarrow> reader \<Rightarrow> string list \<Rightarrow> error + (json \<times> json) list" where
  "get_ndo_versions fromisoformat rd version_files =
     (case version_collect rd version_files of
        Inl e \<Rightarrow> Inl e
      | Inr version_info \<Rightarrow>
          (case sort_reverse (\<lambda>x. ts_key fromisoformat (snd x)) version_info of
             Inl e \<Rightarrow> Inl e
           | Inr sorted_info \<Rightarrow>
               if sorted_info = [] \<and> version_files = [] then Inl UnboundLocalError
               else Inr sorted_info))"

text \<open>
  The records that the loops recover from a list of spans, and what the audit loop does
  with a record.
\<close>

definition recovered :: "ustring list \<Rightarrow> json list" where
  "recovered objs = List.map_filter loads objs"


definition audit_entry :: "json \<Rightarrow> json \<times> json" where
  "audit_entry data =
     (case data of
        JObject d \<Rightarrow> (dict_get d (ustr ''timestamp'') (JString (ustr ''Unknown Timestamp'')),
                      dict_get d (ustr ''description'') (JString (ustr ''No Description'')))
      | _ \<Rightarrow> (JNull, JNull))"

definition version_entry :: "json \<Rightarrow> json \<times> json" where
  "version_entry data =
     (case data of
        JObject d \<Rightarrow> (dict_get d (ustr ''version'') (JString (ustr ''Unknown Version'')),
                      dict_get d (ustr ''timestamp'') (JString (ustr ''Unknown Timestamp'')))
      | _ \<Rightarrow> (JNull, JNull))"

section \<open>Archive Unpacker and Recursive Expander\<close>

text \<open>
  \<open>str.endswith\<close> and \<open>str.replace\<close>: every occurrence of \<open>old\<close>, found from left
  to right without overlap, is replaced.
\<close>

definition endswith :: "string \<Rightarrow> string \<Rightarrow> bool" where
  "endswith s suffix = (length suffix \<le> length s \<and> drop (length s - length suffix) s = suffix)"

fun replace_from :: "string \<Rightarrow> string \<Rightarrow> string \<Rightarrow> string" where
  "replace_from old new [] = []"
| "replace_from old new (c # cs) =
     (if take (length old) (c # cs) = old
      then new @ replace_from old new (drop (length old - 1) cs)
      else c # replace_from old new cs)"

definition replace :: "string \<Rightarrow> string \<Rightarrow> string \<Rightarrow> string" where
  "replace s old new =
     (if old = [] then new @ concat (map (\<lambda>c. c # new) s) else replace_from old new s)"

text \<open>
  The file system is a table from paths to nodes. What matters of a file's bytes is what
  they decode as: a zip archive, a gzip-compressed tar archive (each with its member
  files, named by relative path), or neither. Paths are compared as written.
\<close>

datatype content = ZipData "(string \<times> content) list" | TarGzData "(string \<times> content) list" | Plain

datatype node = File content | Dir

type_synonym fs = "(string \<times> node) list"

definition isfile :: "fs \<Rightarrow> string \<Rightarrow> bool" where
  "isfile fs p = (case map_of fs p of Some (File c) \<Rightarrow> True | _ \<Rightarrow> False)"

definition isdir :: "fs \<Rightarrow> string \<Rightarrow> bool" where
  "isdir fs p = (case map_of fs p of Some Dir \<Rightarrow> True | _ \<Rightarrow> False)"

text \<open>\<open>os.path.join\<close> of two components.\<close>

definition path_join :: "string \<Rightarrow> string \<Rightarrow> string" where
  "path_join a b =
     (if b \<noteq> [] \<and> hd b = CHR ''/'' then b
      else if a = [] \<or> last a = CHR ''/'' then a @ b
      else a @ ''/'' @ b)"

text \<open>
  \<open>os.listdir\<close>: the names of the entries directly inside a directory, here in the
  order of the table.
\<close>

definition child_name :: "string \<Rightarrow> string \<Rightarrow> string option" where
  "child_name directory p =
     (let pre = path_join directory '''' in
      if take (length pre) p = pre \<and> drop (length pre) p \<noteq> []
         \<and> CHR ''/'' \<notin> set (drop (length pre) p)
      then Some (drop (length pre) p) else None)"

definition listdir :: "fs \<Rightarrow> string \<Rightarrow> error + string list" where
  "listdir fs directory =
     (case map_of fs directory of
        None \<Rightarrow> Inl FileNotFoundError
      | Some (File c) \<Rightarrow> Inl NotADirectoryError
      | Some Dir \<Rightarrow> Inr (List.map_filter (\<lambda>(p, n). child_name directory p) fs))"

text \<open>
  \<open>os.makedirs(p, exist_ok=True)\<close> creates the directory and its missing ancestors and
  accepts an existing directory; an existing file in the way raises.
\<close>

fun ancestors :: "string \<Rightarrow> string \<Rightarrow> string list" where
  "ancestors pre [] = []"
| "ancestors pre (c # cs) =
     (if c = CHR ''/'' \<and> pre \<noteq> [] then pre # ancestors (pre @ [c]) cs
      else ancestors (pre @ [c]) cs)"

fun mkdir_all :: "fs \<Rightarrow> string list \<Rightarrow> fs \<times> error option" where
  "mkdir_all fs [] = (fs, None)"
| "mkdir_all fs (d # ds) =
     (case map_of fs d of
        Some (File c) \<Rightarrow> (fs, Some NotADirectoryError)
      | Some Dir \<Rightarrow> mkdir_all fs ds
      | None \<Rightarrow> mkdir_all (fs @ [(d, Dir)]) ds)"

definition makedirs :: "fs \<Rightarrow> string \<Rightarrow> fs \<times> error option" where
  "makedirs fs p =
     (if p = [] then (fs, Some FileNotFoundError)
      else
        (case mkdir_all fs (ancestors [] p) of
           (fs', Some e) \<Rightarrow> (fs', Some e)
         | (fs', None) \<Rightarrow>
             (case map_of fs' p of
                Some (File c) \<Rightarrow> (fs', Some FileExistsError)
              | Some Dir \<Rightarrow> (fs', None)
              | None \<Rightarrow> (fs' @ [(p, Dir)], None))))"

text \<open>
  \<open>extractall\<close> writes each member under the target directory, creating the directories
  on the way. The state reached is kept when a member fails.
\<close>

definition write_file :: "fs \<Rightarrow> string \<Rightarrow> content \<Rightarrow> fs \<times> error option" where
  "write_file fs p c =
     (case mkdir_all fs (ancestors [] p) of
        (fs', Some e) \<Rightarrow> (fs', Some e)
      | (fs', None) \<Rightarrow>
          (case map_of fs' p of
             Some Dir \<Rightarrow> (fs', Some IsADirectoryError)
           | Some (File c') \<Rightarrow> (map (\<lambda>(q, n). if q = p then (q, File c) else (q, n)) fs', None)
           | None \<Rightarrow> (fs' @ [(p, File c)], None)))"

fun extractall :: "fs \<Rightarrow> string \<Rightarrow> (string \<times> content) list \<Rightarrow> fs \<times> error option" where
  "extractall fs extract_to [] = (fs, None)"
| "extractall fs extract_to ((name, c) # members) =
     (case write_file fs (path_join extract_to name) c of
        (fs', Some e) \<Rightarrow> (fs', Some e)
      | (fs', None) \<Rightarrow> extractall fs' extract_to members)"

text \<open>
  \<open>extract_zip\<close> and \<open>extract_tar_gz\<close> open the file as an archive of their kind, which
  raises when the file is missing or is not such an archive, and extract every member.
\<close>

definition extract_zip :: "fs \<Rightarrow> string \<Rightarrow> string \<Rightarrow> fs \<times> error option" where
  "extract_zip fs file_path extract_to =
     (case map_of fs file_path of
        None \<Rightarrow> (fs, Some FileNotFoundError)
      | Some Dir \<Rightarrow> (fs, Some IsADirectoryError)
      | Some (File (ZipData members)) \<Rightarrow> extractall fs extract_to members
      | Some (File c) \<Rightarrow> (fs, Some BadZipFile))"

definition extract_tar_gz :: "fs \<Rightarrow> string \<Rightarrow> string \<Rightarrow> fs \<times> error option" where
  "extract_tar_gz fs file_path extract_to =
     (case map_of fs file_path of
        None \<Rightarrow> (fs, Some FileNotFoundError)
      | Some Dir \<Rightarrow> (fs, Some IsADirectoryError)
      | Some (File (TarGzData members)) \<Rightarrow> extractall fs extract_to members
      | Some (File c) \<Rightarrow> (fs, Some ReadError))"

text \<open>
  \<open>process_file\<close> and \<open>handle_extracted_directory\<close> call each other; \<open>handle_entries\<close>
  is the \<open>for\<close> loop over the listing taken when the loop starts. No exception is
  caught anywhere in them. The recursion need not end on every file system, so the model
  counts the nesting depth down (\<open>Unfinished\<close> when it is used up). A result carries the
  file system reached, also when an exception was raised.
\<close>

datatype result = Returned fs | Raised error fs | Unfinished

function (sequential) process_file :: "nat \<Rightarrow> fs \<Rightarrow> string \<Rightarrow> result"
and handle_extracted_directory :: "nat \<Rightarrow> fs \<Rightarrow> string \<Rightarrow> result"
and handle_entries :: "nat \<Rightarrow> fs \<Rightarrow> string \<Rightarrow> string list \<Rightarrow> result" where
  "process_file 0 fs file_path = Unfinished"
| "process_file (Suc fuel) fs file_path =
     (if endswith file_path ''.zip'' then
        (let extract_dir = replace file_path ''.zip'' '''' in
         case makedirs fs extract_dir of
           (fs1, Some e) \<Rightarrow> Raised e fs1
         | (fs1, None) \<Rightarrow>
             (case extract_zip fs1 file_path extract_dir of
                (fs2, Some e) \<Rightarrow> Raised e fs2
              | (fs2, None) \<Rightarrow> handle_extracted_directory fuel fs2 extract_dir))
      else if endswith file_path ''.tar.gz'' then
        (let extract_dir = replace file_path ''.tar.gz'' '''' in
         case makedirs fs extract_dir of
           (fs1, Some e) \<Rightarrow> Raised e fs1
         | (fs1, None) \<Rightarrow>
             (case extract_tar_gz fs1 file_path extract_dir of
                (fs2, Some e) \<Rightarrow> Raised e fs2
              | (fs2, None) \<Rightarrow> handle_extracted_directory fuel fs2 extract_dir))
      else Returned fs)"
| "handle_extracted_directory fuel fs directory =
     (case listdir fs directory of
        Inl e \<Rightarrow> Raised e fs
      | Inr names \<Rightarrow> handle_entries fuel fs directory names)"
| "handle_entries fuel fs directory [] = Returned fs"
| "handle_entries fuel fs directory (file_name # names) =
     (let file_path = path_join directory file_name in
      if isfile fs file_path then
        (case process_file fuel fs file_path of
           Returned fs' \<Rightarrow> handle_entries fuel fs' directory names
         | Raised e fs' \<Rightarrow> Raised e fs'
         | Unfinished \<Rightarrow> Unfinished)
      else handle_entries fuel fs directory names)"

  by pat_completeness auto
termination
  by (relation "measures [\<lambda>x. case x of Inl (n, fs, p) \<Rightarrow> n | Inr (Inl (n, fs, p)) \<Rightarrow> n | Inr (Inr (n, fs, d, ns)) \<Rightarrow> n,
                          \<lambda>x. case x of Inl (n, fs, p) \<Rightarrow> 0 | Inr (Inl (n, fs, p)) \<Rightarrow> 2 | Inr (Inr (n, fs, d, ns)) \<Rightarrow> 1,
                          \<lambda>x. case x of Inl (n, fs, p) \<Rightarrow> 0 | Inr (Inl (n, fs, p)) \<Rightarrow> 0 | Inr (Inr (n, fs, d, ns)) \<Rightarrow> length ns]") auto

text \<open>The first steps of \<open>main\<close>: the top-level archive is extracted and then expanded.\<close>

definition main_expand :: "nat \<Rightarrow> fs \<Rightarrow> string \<Rightarrow> result" where
  "main_expand fuel fs initial_zip =
     (let initial_extract_dir = replace initial_zip ''.zip'' '''' in
      case extract_zip fs initial_zip initial_extract_dir of
        (fs1, Some e) \<Rightarrow> Raised e fs1
      | (fs1, None) \<Rightarrow> handle_extracted_directory fuel fs1 initial_extract_dir)"

text \<open>What the bytes of a file are, whatever its name.\<close>

definition is_zip :: "content \<Rightarrow> bool" where
  "is_zip c = (case c of ZipData members \<Rightarrow> True | _ \<Rightarrow> False)"

definition is_tar_gz :: "content \<Rightarrow> bool" where
  "is_tar_gz c = (case c of TarGzData members \<Rightarrow> True | _ \<Rightarrow> False)"

text \<open>A directory with three archives, the second of them corrupt.\<close>

definition fs_sample :: fs where
  "fs_sample =
     [(''d'', Dir),
      (''d/a.zip'', File (ZipData [(''x'', Plain)])),
      (''d/b.zip'', File Plain),
      (''d/c.zip'', File (ZipData [(''y'', Plain)]))]"

section \<open>Notions used to state and prove the properties\<close>


definition version_records :: "reader \<Rightarrow> string list \<Rightarrow> json list" where
  "version_records rd version_files =
     (case version_files of
        [] \<Rightarrow> []
      | version_file # others \<Rightarrow>
          (case rd version_file of Inl e \<Rightarrow> [] | Inr content \<Rightarrow> recovered (findall content)))"

definition read_ok :: "reader \<Rightarrow> string list \<Rightarrow> bool" where
  "read_ok rd files =
     (case files of
        [] \<Rightarrow> True
      | file # others \<Rightarrow>
          (case rd file of Inl e \<Rightarrow> e = FileNotFoundError | Inr content \<Rightarrow> True))"

text \<open>
  A timestamp is valid when its sort key can be computed; \<open>ts_instant\<close> and
  \<open>ts_aware\<close> read the key of a valid timestamp. The keys of a list are of the same kind
  when they are all offset-aware or all offset-naive.
\<close>

definition ts_valid :: "isoparser \<Rightarrow> json \<Rightarrow> bool" where
  "ts_valid fromisoformat v = (case ts_key fromisoformat v of Inl e \<Rightarrow> False | Inr d \<Rightarrow> True)"

definition ts_instant :: "isoparser \<Rightarrow> json \<Rightarrow> int" where
  "ts_instant fromisoformat v = (case ts_key fromisoformat v of Inl e \<Rightarrow> 0 | Inr d \<Rightarrow> instant d)"

definition ts_aware :: "isoparser \<Rightarrow> json \<Rightarrow> bool" where
  "ts_aware fromisoformat v = (case ts_key fromisoformat v of Inl e \<Rightarrow> False | Inr d \<Rightarrow> is_aware d)"

definition same_kind :: "isoparser \<Rightarrow> json list \<Rightarrow> bool" where
  "same_kind fromisoformat vs =
     (list_all (ts_aware fromisoformat) vs \<or> list_all (\<lambda>v. \<not> ts_aware fromisoformat v) vs)"

definition key_instant :: "('a \<Rightarrow> error + datetime) \<Rightarrow> 'a \<Rightarrow> int" where
  "key_instant key x = (case key x of Inl e \<Rightarrow> 0 | Inr d \<Rightarrow> instant d)"

text \<open>
  An invariant of the decoder on a text that opens with a brace: the outermost open
  container is that object, until the document ends with it.
\<close>

definition is_objf :: "frame \<Rightarrow> bool" where
  "is_objf f = (case f of FObj kvs k \<Rightarrow> True | FArr es \<Rightarrow> False)"

definition obj_inv :: "pstate \<Rightarrow> bool" where
  "obj_inv s =
     (case s of
        Err \<Rightarrow> True
      | St m st \<Rightarrow> (st \<noteq> [] \<and> is_objf (last st)) \<or> (st = [] \<and> (\<exists>d. m = MDone (JObject d))))"





section \<open>Sample inputs\<close>

text \<open>
  The values of \<open>datetime.fromisoformat\<close> on the three date-times used in the samples, in
  microseconds since the start of year 1; the sample parser rejects every other string,
  the placeholder \<open>Unknown Timestamp\<close> among them.
\<close>

definition iso_sample :: isoparser where
  "iso_sample s =
     (if s = ustr ''2024-01-01T00:00:00'' then Some (Naive 63839664000000000)
      else if s = ustr ''2024-02-01T00:00:00'' then Some (Naive 63842342400000000)
      else if s = ustr ''2024-01-01T00:00:00+00:00'' then Some (Aware 63839664000000000)
      else None)"

text \<open>
  An audit file with a backup record, a record without type and a login record; a version
  file with two versions; an audit file whose two timestamps are one naive and one aware.
\<close>

definition audit_sample :: ustring where
  \<open>audit_sample = ustr (''{"type":"backup","timestamp":"n/a","description":"nightly"}''
     @ ''{"timestamp":"2024-01-01T00:00:00","description":"one"}''
     @ '' {"type":"login","timestamp":"2024-02-01T00:00:00","description":"two"}'')\<close>

definition version_sample :: ustring where
  \<open>version_sample = ustr (''{"version":"1.0","timestamp":"2024-01-01T00:00:00"}''
     @ ''{"version":"1.1","timestamp":"2024-02-01T00:00:00"}'')\<close>

definition mixed_sample :: ustring where
  \<open>mixed_sample = ustr (''{"timestamp":"2024-01-01T00:00:00"}''
     @ ''{"timestamp":"2024-01-01T00:00:00+00:00"}'')\<close>

definition rd_sample :: reader where
  \<open>rd_sample f =
     (if f = ''msc_audit.json'' then Inr audit_sample
      else if f = ''msc_versions.json'' then Inr version_sample
      else if f = ''audit_no_time.json'' then Inr (ustr ''{"description":"no time"}'')
      else if f = ''versions_no_time.json'' then Inr (ustr ''{"version":"1.0"}'')
      else Inl FileNotFoundError)\<close>

section \<open>Properties of the site projection\<close>

lemma py_get_nested:
  assumes "dict_or_absent data outer"
  shows "py_get (dict_get data outer (JObject [])) inner (JString (ustr ph))
         = Inr (field_or (nested_field data outer inner) ph)"
proof (cases "map_of (rev data) outer")
  case None
  then show ?thesis
    by (simp add: dict_get_def nested_field_def field_or_def)
next
  case (Some v)
  with assms obtain d where v: "v = JObject d"
    by (cases v) (simp_all add: dict_or_absent_def is_dict_def)
  show ?thesis
    using Some v
    by (simp add: dict_get_def nested_field_def field_or_def split: option.splits)
qed

text \<open>
  C8 (as amended). For a dictionary whose \<open>common\<close> and \<open>_id\<close> entries, where present,
  are themselves dictionaries, \<open>extract_site_data\<close> returns exactly one record, and
  each of the four fields is the value found at \<open>common.siteid\<close>, \<open>common.name\<close>,
  \<open>common.siteversion\<close>, \<open>_id.$oid\<close>, or its fixed placeholder string when the field is
  missing.
\<close>

theorem extract_site_data_placeholders:
  assumes "dict_or_absent data (ustr ''common'')"
      and "dict_or_absent data (ustr ''_id'')"
  shows "extract_site_data (JObject data) =
           [\<lparr>site_id = field_or (nested_field data (ustr ''common'') (ustr ''siteid''))
                         ''Unknown Site ID'',
             site_name = field_or (nested_field data (ustr ''common'') (ustr ''name''))
                         ''Unknown Name'',
             site_version = field_or (nested_field data (ustr ''common'') (ustr ''siteversion''))
                         ''Unknown Version'',
             site_oid = field_or (nested_field data (ustr ''_id'') (ustr ''$oid''))
                         ''Unknown Site OID''\<rparr>]"
  by (simp add: site_fields_def py_get_nested [OF assms(1)] py_get_nested [OF assms(2)])

theorem extract_site_data_placeholders_witness:
  "extract_site_data (JObject [(ustr ''common'', JObject [(ustr ''name'', JString (ustr ''A''))])])
     = [\<lparr>site_id = JString (ustr ''Unknown Site ID''),
         site_name = JString (ustr ''A''),
         site_version = JString (ustr ''Unknown Version''),
         site_oid = JString (ustr ''Unknown Site OID'')\<rparr>]"
proof -
  let ?d = "[(ustr ''common'', JObject [(ustr ''name'', JString (ustr ''A''))])]"
  have c: "dict_or_absent ?d (ustr ''common'')"
    by (simp add: dict_or_absent_def is_dict_def ustr_def)
  have i: "dict_or_absent ?d (ustr ''_id'')"
    by (simp add: dict_or_absent_def is_dict_def ustr_def)
  show ?thesis
    using extract_site_data_placeholders [OF c i]
    by (simp add: nested_field_def field_or_def ustr_def)
qed

text \<open>
  C8, as stated, fails: a dictionary whose \<open>common\<close> entry is not a dictionary makes
  the lookup raise inside the \<open>try\<close> block, and the record is dropped.
\<close>

theorem extract_site_data_dropped:
  "extract_site_data (JObject [(ustr ''common'', JNull)]) = []"
  by (simp add: site_fields_def dict_get_def ustr_def)

section \<open>Properties of the Object-Stream Recoverer\<close>





section \<open>Properties of the Archive Unpacker and the Recursive Expander\<close>

text \<open>
  C3, as stated, fails: a gzip-compressed tar archive named \<open>a.zip\<close> is opened as a zip
  archive, which raises, and a zip archive named \<open>a.bin\<close> is not taken for a container.
\<close>

theorem process_file_name_only:
  "process_file 1 [(''a.zip'', File (TarGzData [(''x'', Plain)]))] ''a.zip''
     = Raised BadZipFile [(''a.zip'', File (TarGzData [(''x'', Plain)])), (''a'', Dir)]
   \<and> process_file 1 [(''a.bin'', File (ZipData [(''x'', Plain)]))] ''a.bin''
     = Returned [(''a.bin'', File (ZipData [(''x'', Plain)]))]"
  by code_simp

text \<open>
  C3 (as amended). \<open>process_file\<close> chooses the kind of container by the suffix of the path
  alone: a path with neither suffix is left alone whatever the file holds; behind the
  suffix \<open>.zip\<close> the file is opened as a zip archive and behind \<open>.tar.gz\<close> as a
  gzip-compressed tar archive, and a file that is not an archive of that kind makes the
  extraction raise.
\<close>

theorem process_file_by_suffix:
  "(\<not> endswith p ''.zip'' \<and> \<not> endswith p ''.tar.gz''
      \<longrightarrow> process_file (Suc n) fs p = Returned fs)
   \<and> (endswith p ''.zip'' \<and> makedirs fs (replace p ''.zip'' '''') = (fs1, None)
        \<and> map_of fs1 p = Some (File c) \<and> \<not> is_zip c
      \<longrightarrow> process_file (Suc n) fs p = Raised BadZipFile fs1)
   \<and> (\<not> endswith p ''.zip'' \<and> endswith p ''.tar.gz''
        \<and> makedirs fs (replace p ''.tar.gz'' '''') = (fs1, None)
        \<and> map_of fs1 p = Some (File c) \<and> \<not> is_tar_gz c
      \<longrightarrow> process_file (Suc n) fs p = Raised ReadError fs1)"
proof (intro conjI impI)
  assume "\<not> endswith p ''.zip'' \<and> \<not> endswith p ''.tar.gz''"
  then show "process_file (Suc n) fs p = Returned fs" by simp
next
  assume a: "endswith p ''.zip'' \<and> makedirs fs (replace p ''.zip'' '''') = (fs1, None)
        \<and> map_of fs1 p = Some (File c) \<and> \<not> is_zip c"
  then have "extract_zip fs1 p (replace p ''.zip'' '''') = (fs1, Some BadZipFile)"
    by (cases c) (simp_all add: extract_zip_def is_zip_def)
  with a show "process_file (Suc n) fs p = Raised BadZipFile fs1" by simp
next
  assume a: "\<not> endswith p ''.zip'' \<and> endswith p ''.tar.gz''
        \<and> makedirs fs (replace p ''.tar.gz'' '''') = (fs1, None)
        \<and> map_of fs1 p = Some (File c) \<and> \<not> is_tar_gz c"
  then have "extract_tar_gz fs1 p (replace p ''.tar.gz'' '''') = (fs1, Some ReadError)"
    by (cases c) (simp_all add: extract_tar_gz_def is_tar_gz_def)
  with a show "process_file (Suc n) fs p = Raised ReadError fs1" by simp
qed

theorem process_file_by_suffix_witness:
  "process_file (Suc 0) [(''a.bin'', File (ZipData [(''x'', Plain)]))] ''a.bin''
     = Returned [(''a.bin'', File (ZipData [(''x'', Plain)]))]
   \<and> process_file (Suc 0) [(''a.zip'', File (TarGzData [(''x'', Plain)]))] ''a.zip''
     = Raised BadZipFile [(''a.zip'', File (TarGzData [(''x'', Plain)])), (''a'', Dir)]
   \<and> process_file (Suc 0) [(''a.tar.gz'', File (ZipData [(''x'', Plain)]))] ''a.tar.gz''
     = Raised ReadError [(''a.tar.gz'', File (ZipData [(''x'', Plain)])), (''a'', Dir)]"
proof -
  let ?z = "ZipData [(''x'', Plain)]" and ?t = "TarGzData [(''x'', Plain)]"
  have 1: "\<not> endswith ''a.bin'' ''.zip'' \<and> \<not> endswith ''a.bin'' ''.tar.gz''"
    by code_simp
  have 2: "endswith ''a.zip'' ''.zip''
      \<and> makedirs [(''a.zip'', File ?t)] (replace ''a.zip'' ''.zip'' '''')
          = ([(''a.zip'', File ?t), (''a'', Dir)], None)
      \<and> map_of [(''a.zip'', File ?t), (''a'', Dir)] ''a.zip'' = Some (File ?t)
      \<and> \<not> is_zip ?t"
    by code_simp
  have 3: "\<not> endswith ''a.tar.gz'' ''.zip'' \<and> endswith ''a.tar.gz'' ''.tar.gz''
      \<and> makedirs [(''a.tar.gz'', File ?z)] (replace ''a.tar.gz'' ''.tar.gz'' '''')
          = ([(''a.tar.gz'', File ?z), (''a'', Dir)], None)
      \<and> map_of [(''a.tar.gz'', File ?z), (''a'', Dir)] ''a.tar.gz'' = Some (File ?z)
      \<and> \<not> is_tar_gz ?z"
    by code_simp
  from 1 2 3
    process_file_by_suffix [of "''a.bin''" 0 "[(''a.bin'', File ?z)]"]
    process_file_by_suffix [of "''a.zip''" 0 "[(''a.zip'', File ?t)]"
      "[(''a.zip'', File ?t), (''a'', Dir)]" ?t]
    process_file_by_suffix [of "''a.tar.gz''" 0 "[(''a.tar.gz'', File ?z)]"
      "[(''a.tar.gz'', File ?z), (''a'', Dir)]" ?z]
  show ?thesis by blast
qed

text \<open>
  C4. The extraction directory should be the path without its archive suffix. On a path
  that holds the suffix text elsewhere too, \<open>process_file\<close> removes every occurrence:
  for \<open>s.tar.gz.d/ndo/db.tar.gz\<close> it creates and fills \<open>s.d/ndo/db\<close>, not
  \<open>s.tar.gz.d/ndo/db\<close>.
\<close>

theorem process_file_all_occurrences:
  "process_file 2
     [(''s.tar.gz.d'', Dir), (''s.tar.gz.d/ndo'', Dir),
      (''s.tar.gz.d/ndo/db.tar.gz'', File (TarGzData [(''v.json'', Plain)]))]
     ''s.tar.gz.d/ndo/db.tar.gz''
   = Returned
     [(''s.tar.gz.d'', Dir), (''s.tar.gz.d/ndo'', Dir),
      (''s.tar.gz.d/ndo/db.tar.gz'', File (TarGzData [(''v.json'', Plain)])),
      (''s.d'', Dir), (''s.d/ndo'', Dir), (''s.d/ndo/db'', Dir),
      (''s.d/ndo/db/v.json'', File Plain)]"
  by code_simp

lemma handle_entries_append:
  "handle_entries n fs d (xs @ ys) =
     (case handle_entries n fs d xs of
        Returned fs' \<Rightarrow> handle_entries n fs' d ys
      | Raised e fs' \<Rightarrow> Raised e fs'
      | Unfinished \<Rightarrow> Unfinished)"
  by (induction xs arbitrary: fs) (auto simp: Let_def split: result.splits)

text \<open>
  C5, as stated, fails: with a corrupt archive \<open>b.zip\<close> listed before its sibling
  \<open>c.zip\<close>, the expander raises at \<open>b.zip\<close> and \<open>c.zip\<close> is never expanded.
\<close>

theorem handle_extracted_directory_sibling_skipped:
  "handle_extracted_directory 2
     [(''d'', Dir), (''d/b.zip'', File Plain), (''d/c.zip'', File (ZipData [(''y'', Plain)]))]
     ''d''
   = Raised BadZipFile
     [(''d'', Dir), (''d/b.zip'', File Plain), (''d/c.zip'', File (ZipData [(''y'', Plain)])),
      (''d/b'', Dir)]"
  by code_simp

text \<open>
  C5 (as amended). When unpacking one container of a directory raises, the expander stops
  there: the entries listed before it have been processed, the entries after it are not,
  and the exception reaches the caller of \<open>handle_extracted_directory\<close>.
\<close>

theorem handle_extracted_directory_aborts:
  assumes "listdir fs d = Inr (pre @ name # post)"
      and "handle_entries n fs d pre = Returned fs1"
      and "isfile fs1 (path_join d name)"
      and "process_file n fs1 (path_join d name) = Raised e fs2"
  shows "handle_extracted_directory n fs d = Raised e fs2"
  using assms by (simp add: handle_entries_append)

theorem handle_extracted_directory_aborts_witness:
  "handle_extracted_directory 2 fs_sample ''d''
     = Raised BadZipFile (fs_sample @ [(''d/a'', Dir), (''d/a/x'', File Plain), (''d/b'', Dir)])"
proof -
  let ?fs1 = "fs_sample @ [(''d/a'', Dir), (''d/a/x'', File Plain)]"
  have 1: "listdir fs_sample ''d'' = Inr ([''a.zip''] @ ''b.zip'' # [''c.zip''])"
    by code_simp
  have 2: "handle_entries 2 fs_sample ''d'' [''a.zip''] = Returned ?fs1"
    by code_simp
  have 3: "isfile ?fs1 (path_join ''d'' ''b.zip'')"
    by code_simp
  have 4: "process_file 2 ?fs1 (path_join ''d'' ''b.zip'')
             = Raised BadZipFile (?fs1 @ [(''d/b'', Dir)])"
    by code_simp
  show ?thesis
    using handle_extracted_directory_aborts [OF 1 2 3 4] by simp
qed

section \<open>The decoder on a text that opens with a brace\<close>

lemma obj_inv_simps [simp]:
  "obj_inv Err"
  "st \<noteq> [] \<Longrightarrow> obj_inv (St m st) = is_objf (last st)"
  "obj_inv (St m []) = (\<exists>d. m = MDone (JObject d))"
  by (auto simp: obj_inv_def)

lemma obj_inv_deliver: "st \<noteq> [] \<Longrightarrow> is_objf (last st) \<Longrightarrow> obj_inv (deliver v st)"
  by (induction v st rule: deliver.induct) (auto simp: is_objf_def)

lemma obj_inv_close_array: "st \<noteq> [] \<Longrightarrow> is_objf (last st) \<Longrightarrow> obj_inv (close_array st)"
proof (cases st)
  case (Cons f rest)
  assume "is_objf (last st)"
  with Cons show ?thesis
    by (cases f; cases rest) (auto simp: close_array_def is_objf_def obj_inv_deliver)
qed simp

lemma obj_inv_close_object: "st \<noteq> [] \<Longrightarrow> is_objf (last st) \<Longrightarrow> obj_inv (close_object st)"
proof (cases st)
  case (Cons f rest)
  assume "is_objf (last st)"
  with Cons show ?thesis
    by (cases f; cases rest)
       (auto simp: close_object_def is_objf_def obj_inv_deliver split: option.splits)
qed simp

lemma obj_inv_start_value: "st \<noteq> [] \<Longrightarrow> is_objf (last st) \<Longrightarrow> obj_inv (start_value c st)"
  by (simp add: start_value_def)

lemma obj_inv_after_comma: "st \<noteq> [] \<Longrightarrow> is_objf (last st) \<Longrightarrow> obj_inv (after_comma st)"
  by (auto simp: after_comma_def split: list.splits frame.splits option.splits)

lemma obj_inv_end_string: "st \<noteq> [] \<Longrightarrow> is_objf (last st) \<Longrightarrow> obj_inv (end_string k s st)"
  by (auto simp: end_string_def obj_inv_deliver is_objf_def
           split: list.splits frame.splits option.splits)

lemma obj_inv_str_step:
  "st \<noteq> [] \<Longrightarrow> is_objf (last st) \<Longrightarrow> obj_inv (str_step k acc p sm c st)"
  by (cases sm) (auto simp: obj_inv_end_string Let_def split: option.splits)

lemma obj_inv_step0: "st \<noteq> [] \<Longrightarrow> is_objf (last st) \<Longrightarrow> obj_inv (step0 m st c)"
  by (induction m st c rule: step0.induct)
     (simp_all add: obj_inv_start_value obj_inv_close_array obj_inv_close_object
        obj_inv_after_comma obj_inv_str_step obj_inv_deliver)

lemma obj_inv_step: "obj_inv s \<Longrightarrow> obj_inv (step s c)"
proof (cases s)
  case Err
  then show ?thesis by simp
next
  case (St m st)
  assume inv: "obj_inv s"
  show ?thesis
  proof (cases "st = []")
    case True
    with inv St obtain d where "m = MDone (JObject d)" by auto
    with St True show ?thesis by simp
  next
    case False
    with inv St have lo: "is_objf (last st)" by simp
    note ne = False
    show ?thesis
    proof (cases m)
      case (MNum ns lx)
      have "obj_inv (case deliver (number_value ns lx) st of Err \<Rightarrow> Err | St m' st' \<Rightarrow> step0 m' st' c)"
      proof (cases "deliver (number_value ns lx) st")
        case Err
        then show ?thesis by simp
      next
        case (St m' st')
        with obj_inv_deliver [OF ne lo, of "number_value ns lx"]
        have "obj_inv (St m' st')" by simp
        moreover have "st' \<noteq> []"
          using St ne by (cases "(number_value ns lx, st)" rule: deliver.cases) auto
        ultimately show ?thesis using St by (simp add: obj_inv_step0)
      qed
      with St MNum ne lo show ?thesis
        by (auto split: option.splits)
    qed (use St ne lo in \<open>simp_all add: obj_inv_step0 del: step0.simps\<close>)
  qed
qed

lemma obj_inv_foldl: "obj_inv s \<Longrightarrow> obj_inv (foldl step s cs)"
  by (induction cs arbitrary: s) (simp_all add: obj_inv_step)

text \<open>
  A span found by the boundary detection opens with a brace, so what the decoder makes of
  it, if anything, is a dictionary: the lookups of the loops never raise.
\<close>

lemma loads_brace_is_dict:
  assumes "loads (ch CHR ''{'' # cs) = Some v"
  shows "\<exists>d. v = JObject d"
proof -
  have "obj_inv (foldl step (St MObjFirst [FObj [] None]) cs)"
    by (rule obj_inv_foldl) (simp add: is_objf_def)
  moreover have "foldl step (St MValue []) (ch CHR ''{'' # cs)
                 = foldl step (St MObjFirst [FObj [] None]) cs"
    by (simp add: json_ws_def start_value_def)
  ultimately have inv: "obj_inv (foldl step (St MValue []) (ch CHR ''{'' # cs))" by simp
  from assms have fin: "finish (foldl step (St MValue []) (ch CHR ''{'' # cs)) = Some v"
    by (simp only: loads_def)
  show ?thesis
  proof (cases "foldl step (St MValue []) (ch CHR ''{'' # cs)")
    case Err
    with fin show ?thesis by simp
  next
    case (St m st)
    with inv fin show ?thesis
      by (cases st; cases m) (auto simp: obj_inv_def)
  qed
qed

lemma findall_brace: "obj \<in> set (findall content) \<Longrightarrow> \<exists>m. obj = ch CHR ''{'' # m"
  by (induction content rule: findall.induct) (auto split: option.splits if_splits)

section \<open>Properties of the per-span loops\<close>


lemma version_try_brace:
  "version_try (ch CHR ''{'' # m) =
     (case loads (ch CHR ''{'' # m) of
        None \<Rightarrow> Inr None
      | Some data \<Rightarrow> Inr (Some (version_entry data)))"
proof (cases "loads (ch CHR ''{'' # m)")
  case None
  then show ?thesis
    by (simp add: version_try_def version_body_def json_loads_def)
next
  case (Some data)
  with loads_brace_is_dict obtain d where "data = JObject d" by blast
  with Some show ?thesis
    by (simp add: version_try_def version_body_def json_loads_def version_entry_def)
qed


lemma version_loop_recovered:
  assumes "\<forall>obj\<in>set objs. \<exists>m. obj = ch CHR ''{'' # m"
  shows "version_loop acc objs = (acc @ map version_entry (recovered objs), None)"
  using assms
proof (induction objs arbitrary: acc)
  case Nil
  show ?case by (simp add: recovered_def)
next
  case (Cons obj objs)
  then obtain m where m: "obj = ch CHR ''{'' # m" by auto
  from Cons have IH: "\<And>acc. version_loop acc objs
      = (acc @ map version_entry (recovered objs), None)" by simp
  show ?case
    unfolding version_loop.simps m version_try_brace
    by (cases "loads (ch CHR ''{'' # m)") (simp_all add: IH recovered_def)
qed


lemma version_loop_findall:
  "version_loop [] (findall content) = (map version_entry (recovered (findall content)), None)"
  using version_loop_recovered [of "findall content" "[]"] findall_brace by auto




section \<open>Properties of the sort\<close>


lemma version_collect_eq:
  "version_collect rd files =
     (if read_ok rd files
      then Inr (map version_entry (version_records rd files))
      else (case rd (hd files) of Inl e \<Rightarrow> Inl e | Inr c \<Rightarrow> Inr []))"
  by (auto simp: version_collect_def read_ok_def version_records_def version_loop_findall
           split: list.splits sum.splits)

lemma sort_keys_Inr:
  "sort_keys key xs = Inr ks \<Longrightarrow> map snd ks = xs \<and> (\<forall>p\<in>set ks. key (snd p) = Inr (fst p))"
  by (induction xs arbitrary: ks) (auto split: sum.splits)

lemma sort_keys_total:
  "\<forall>x\<in>set xs. \<exists>k. key x = Inr k \<Longrightarrow> \<exists>ks. sort_keys key xs = Inr ks"
  by (induction xs) (auto split: sum.splits)


lemma sort_reverse_total:
  assumes "\<forall>x\<in>set xs. \<exists>k. key x = Inr k"
      and "(\<forall>x\<in>set xs. \<forall>k. key x = Inr k \<longrightarrow> is_aware k)
           \<or> (\<forall>x\<in>set xs. \<forall>k. key x = Inr k \<longrightarrow> \<not> is_aware k)"
  shows "\<exists>out. sort_reverse key xs = Inr out"
proof -
  from sort_keys_total [OF assms(1)] obtain ks where ks: "sort_keys key xs = Inr ks" by blast
  from sort_keys_Inr [OF ks] have snd: "map snd ks = xs"
    and keys: "\<forall>p\<in>set ks. key (snd p) = Inr (fst p)" by auto
  have "\<forall>p\<in>set ks. snd p \<in> set xs" using snd by force
  with assms(2) keys have "(\<forall>p\<in>set ks. is_aware (fst p)) \<or> (\<forall>p\<in>set ks. \<not> is_aware (fst p))"
    by blast
  then have "\<not> mixed (map fst ks)"
    by (auto simp: mixed_def list_ex_iff)
  with ks show ?thesis by (simp add: sort_reverse_def)
qed

lemma ts_key_instant [simp]:
  "key_instant (\<lambda>x. ts_key dt (f x)) a = ts_instant dt (f a)"
  by (simp add: key_instant_def ts_instant_def)

lemma ts_valid_iff: "ts_valid dt v \<longleftrightarrow> (\<exists>k. ts_key dt v = Inr k)"
  by (cases "ts_key dt v") (simp_all add: ts_valid_def)

lemma ts_aware_iff: "ts_key dt v = Inr k \<Longrightarrow> ts_aware dt v = is_aware k"
  by (simp add: ts_aware_def)

lemma sort_reverse_ts_iff:
  "(\<exists>out. sort_reverse (\<lambda>x. ts_key dt (f x)) xs = Inr out)
   \<longleftrightarrow> (\<forall>x\<in>set xs. ts_valid dt (f x)) \<and> same_kind dt (map f xs)"
proof
  assume "\<exists>out. sort_reverse (\<lambda>x. ts_key dt (f x)) xs = Inr out"
  then obtain ks where ks: "sort_keys (\<lambda>x. ts_key dt (f x)) xs = Inr ks"
    and nm: "\<not> mixed (map fst ks)"
    by (auto simp: sort_reverse_def split: sum.splits if_splits)
  from sort_keys_Inr [OF ks] have snd: "map snd ks = xs"
    and keys: "\<forall>p\<in>set ks. ts_key dt (f (snd p)) = Inr (fst p)" by auto
  have cover: "\<forall>x\<in>set xs. \<exists>p\<in>set ks. snd p = x" using snd by force
  from keys cover have valid: "\<forall>x\<in>set xs. ts_valid dt (f x)"
    by (metis ts_valid_iff)
  from nm have "(\<forall>p\<in>set ks. is_aware (fst p)) \<or> (\<forall>p\<in>set ks. \<not> is_aware (fst p))"
    by (auto simp: mixed_def list_ex_iff)
  then have "same_kind dt (map f xs)"
  proof
    assume a: "\<forall>p\<in>set ks. is_aware (fst p)"
    have "\<forall>x\<in>set xs. ts_aware dt (f x)"
      using keys cover a by (metis ts_aware_iff)
    then show ?thesis by (simp add: same_kind_def list_all_iff)
  next
    assume a: "\<forall>p\<in>set ks. \<not> is_aware (fst p)"
    have "\<forall>x\<in>set xs. \<not> ts_aware dt (f x)"
      using keys cover a by (metis ts_aware_iff)
    then show ?thesis by (simp add: same_kind_def list_all_iff)
  qed
  with valid show "(\<forall>x\<in>set xs. ts_valid dt (f x)) \<and> same_kind dt (map f xs)" ..
next
  assume a: "(\<forall>x\<in>set xs. ts_valid dt (f x)) \<and> same_kind dt (map f xs)"
  then have v: "\<forall>x\<in>set xs. \<exists>k. ts_key dt (f x) = Inr k"
    by (simp add: ts_valid_iff)
  from a have "(\<forall>x\<in>set xs. ts_aware dt (f x)) \<or> (\<forall>x\<in>set xs. \<not> ts_aware dt (f x))"
    by (auto simp: same_kind_def list_all_iff)
  then have "(\<forall>x\<in>set xs. \<forall>k. ts_key dt (f x) = Inr k \<longrightarrow> is_aware k)
           \<or> (\<forall>x\<in>set xs. \<forall>k. ts_key dt (f x) = Inr k \<longrightarrow> \<not> is_aware k)"
    by (metis ts_aware_iff)
  with v show "\<exists>out. sort_reverse (\<lambda>x. ts_key dt (f x)) xs = Inr out"
    by (rule sort_reverse_total)
qed

lemma sort_reverse_ts_error:
  "(\<exists>e. sort_reverse (\<lambda>x. ts_key dt (f x)) xs = Inl e)
   \<longleftrightarrow> \<not> ((\<forall>x\<in>set xs. ts_valid dt (f x)) \<and> same_kind dt (map f xs))"
  using sort_reverse_ts_iff [of dt f xs]
  by (cases "sort_reverse (\<lambda>x. ts_key dt (f x)) xs") auto

lemma get_last_audits_Inr_iff:
  assumes "audit_collect rd files = Inr es"
  shows "(\<exists>out. get_last_audits dt rd files = Inr out)
         \<longleftrightarrow> (\<forall>x\<in>set es. ts_valid dt (fst x)) \<and> same_kind dt (map fst es)"
  using assms sort_reverse_ts_iff [of dt fst es]
  by (auto simp: get_last_audits_def split: sum.splits)

lemma get_ndo_versions_Inr_iff:
  assumes "version_collect rd files = Inr vs" and "files \<noteq> []"
  shows "(\<exists>out. get_ndo_versions dt rd files = Inr out)
         \<longleftrightarrow> (\<forall>x\<in>set vs. ts_valid dt (snd x)) \<and> same_kind dt (map snd vs)"
  using assms sort_reverse_ts_iff [of dt snd vs]
  by (auto simp: get_ndo_versions_def split: sum.splits)


text \<open>
  Without a version file the list is empty and the message about it names a variable
  that was never bound.
\<close>

lemma get_ndo_versions_no_file:
  "get_ndo_versions dt rd [] = Inl UnboundLocalError"
  by (simp add: get_ndo_versions_def version_collect_def sort_reverse_def mixed_def)

section \<open>Properties of the version and audit reports\<close>



text \<open>
  C7, as stated, fails: both timestamps of the sample are valid ISO date-times, one
  without and one with a UTC offset, and sorting them raises \<open>TypeError\<close>.
\<close>

theorem get_last_audits_mixed_offsets:
  "ts_valid iso_sample (JString (ustr ''2024-01-01T00:00:00''))
   \<and> ts_valid iso_sample (JString (ustr ''2024-01-01T00:00:00+00:00''))
   \<and> audit_collect (\<lambda>f. Inr mixed_sample) [''msc_audit.json'']
       = Inr [(JString (ustr ''2024-01-01T00:00:00''), JString (ustr ''No Description'')),
              (JString (ustr ''2024-01-01T00:00:00+00:00''), JString (ustr ''No Description''))]
   \<and> get_last_audits iso_sample (\<lambda>f. Inr mixed_sample) [''msc_audit.json''] = Inl TypeError"
  by code_simp

text \<open>
  C7 (as amended). If a record used as a sort key has a timestamp that is not a valid ISO
  date-time, \<open>get_last_audits\<close> and \<open>get_ndo_versions\<close> raise; the placeholder put in
  for a missing timestamp is such a timestamp whenever the parser rejects it. Once the
  records are collected, \<open>get_last_audits\<close> succeeds if and only if every sort-key
  timestamp is valid and the date-times are all offset-naive or all offset-aware, and so
  does \<open>get_ndo_versions\<close> when a version file was found.
\<close>

theorem timestamp_failure_fatal:
  "(audit_collect rd afiles = Inr es \<and> (\<exists>x\<in>set es. \<not> ts_valid dt (fst x))
      \<longrightarrow> (\<exists>e. get_last_audits dt rd afiles = Inl e))
   \<and> (version_collect rd vfiles = Inr vs \<and> (\<exists>x\<in>set vs. \<not> ts_valid dt (snd x))
      \<longrightarrow> (\<exists>e. get_ndo_versions dt rd vfiles = Inl e))
   \<and> (dt (ustr ''Unknown Timestamp'') = None \<and> map_of (rev d) (ustr ''timestamp'') = None
      \<longrightarrow> \<not> ts_valid dt (fst (audit_entry (JObject d)))
          \<and> \<not> ts_valid dt (snd (version_entry (JObject d))))
   \<and> (audit_collect rd afiles = Inr es
      \<longrightarrow> ((\<exists>out. get_last_audits dt rd afiles = Inr out)
           \<longleftrightarrow> (\<forall>x\<in>set es. ts_valid dt (fst x)) \<and> same_kind dt (map fst es)))
   \<and> (version_collect rd vfiles = Inr vs \<and> vfiles \<noteq> []
      \<longrightarrow> ((\<exists>out. get_ndo_versions dt rd vfiles = Inr out)
           \<longleftrightarrow> (\<forall>x\<in>set vs. ts_valid dt (snd x)) \<and> same_kind dt (map snd vs)))"
proof -
  have 1: "\<exists>e. get_last_audits dt rd afiles = Inl e"
    if a: "audit_collect rd afiles = Inr es \<and> (\<exists>x\<in>set es. \<not> ts_valid dt (fst x))"
  proof -
    from a have "\<exists>e. sort_reverse (\<lambda>x. ts_key dt (fst x)) es = Inl e"
      by (subst sort_reverse_ts_error) blast
    with a show ?thesis by (auto simp: get_last_audits_def)
  qed
  have 2: "\<exists>e. get_ndo_versions dt rd vfiles = Inl e"
    if a: "version_collect rd vfiles = Inr vs \<and> (\<exists>x\<in>set vs. \<not> ts_valid dt (snd x))"
  proof -
    from a have "\<exists>e. sort_reverse (\<lambda>x. ts_key dt (snd x)) vs = Inl e"
      by (subst sort_reverse_ts_error) blast
    with a show ?thesis by (auto simp: get_ndo_versions_def)
  qed
  have 3: "\<not> ts_valid dt (fst (audit_entry (JObject d)))
          \<and> \<not> ts_valid dt (snd (version_entry (JObject d)))"
    if "dt (ustr ''Unknown Timestamp'') = None \<and> map_of (rev d) (ustr ''timestamp'') = None"
    using that
    by (simp add: audit_entry_def version_entry_def dict_get_def ts_valid_def ts_key_def)
  have 4: "(\<exists>out. get_last_audits dt rd afiles = Inr out)
           \<longleftrightarrow> (\<forall>x\<in>set es. ts_valid dt (fst x)) \<and> same_kind dt (map fst es)"
    if "audit_collect rd afiles = Inr es"
    using that by (rule get_last_audits_Inr_iff)
  have 5: "(\<exists>out. get_ndo_versions dt rd vfiles = Inr out)
           \<longleftrightarrow> (\<forall>x\<in>set vs. ts_valid dt (snd x)) \<and> same_kind dt (map snd vs)"
    if "version_collect rd vfiles = Inr vs \<and> vfiles \<noteq> []"
    using that get_ndo_versions_Inr_iff by blast
  from 1 2 3 4 5 show ?thesis by blast
qed

theorem timestamp_failure_fatal_witness:
  "(\<exists>e. get_last_audits iso_sample rd_sample [''audit_no_time.json''] = Inl e)
   \<and> (\<exists>e. get_ndo_versions iso_sample rd_sample [''versions_no_time.json''] = Inl e)
   \<and> (\<exists>out. get_last_audits iso_sample rd_sample [''msc_audit.json''] = Inr out)
   \<and> (\<exists>out. get_ndo_versions iso_sample rd_sample [''msc_versions.json''] = Inr out)"
proof -
  let ?ph = "JString (ustr ''Unknown Timestamp'')"
  let ?bad_es = "[(?ph, JString (ustr ''no time''))]"
  let ?bad_vs = "[(JString (ustr ''1.0''), ?ph)]"
  let ?es = "[(JString (ustr ''2024-01-01T00:00:00''), JString (ustr ''one'')),
              (JString (ustr ''2024-02-01T00:00:00''), JString (ustr ''two''))]"
  let ?vs = "[(JString (ustr ''1.0''), JString (ustr ''2024-01-01T00:00:00'')),
              (JString (ustr ''1.1''), JString (ustr ''2024-02-01T00:00:00''))]"
  have b1: "audit_collect rd_sample [''audit_no_time.json''] = Inr ?bad_es
            \<and> (\<exists>x\<in>set ?bad_es. \<not> ts_valid iso_sample (fst x))"
    by code_simp
  have b2: "version_collect rd_sample [''versions_no_time.json''] = Inr ?bad_vs
            \<and> (\<exists>x\<in>set ?bad_vs. \<not> ts_valid iso_sample (snd x))"
    by code_simp
  have b3: "iso_sample (ustr ''Unknown Timestamp'') = None
            \<and> map_of (rev [(ustr ''description'', JString (ustr ''no time''))]) (ustr ''timestamp'')
                = None"
    by code_simp
  have g1: "audit_collect rd_sample [''msc_audit.json''] = Inr ?es"
    by code_simp
  have g2: "(\<forall>x\<in>set ?es. ts_valid iso_sample (fst x)) \<and> same_kind iso_sample (map fst ?es)"
    by code_simp
  have g3: "version_collect rd_sample [''msc_versions.json''] = Inr ?vs
            \<and> [''msc_versions.json''] \<noteq> []"
    by code_simp
  have g4: "(\<forall>x\<in>set ?vs. ts_valid iso_sample (snd x)) \<and> same_kind iso_sample (map snd ?vs)"
    by code_simp
  from b1 b2 b3
    timestamp_failure_fatal [of rd_sample "[''audit_no_time.json'']" ?bad_es iso_sample
      "[''versions_no_time.json'']" ?bad_vs "[(ustr ''description'', JString (ustr ''no time''))]"]
  have bad: "(\<exists>e. get_last_audits iso_sample rd_sample [''audit_no_time.json''] = Inl e)
   \<and> (\<exists>e. get_ndo_versions iso_sample rd_sample [''versions_no_time.json''] = Inl e)"
    by blast
  from g1 g2 g3 g4
    timestamp_failure_fatal [of rd_sample "[''msc_audit.json'']" ?es iso_sample
      "[''msc_versions.json'']" ?vs "[]"]
  have good: "(\<exists>out. get_last_audits iso_sample rd_sample [''msc_audit.json''] = Inr out)
   \<and> (\<exists>out. get_ndo_versions iso_sample rd_sample [''msc_versions.json''] = Inr out)"
    by blast
  from bad good show ?thesis by blast
qed



section \<open>Two adjacent objects\<close>










lemma step_Err_foldl [simp]: "foldl step Err cs = Err"
  by (induction cs) simp_all








lemma re_space_braces [simp]: "\<not> re_space 123" "\<not> re_space 125"
  by (simp_all add: re_space_def)










end
